theory Spec2Isabelle
  imports Complex_Main
begin

section \<open>Exercise-form analysis engine: a shallow embedding of \<open>PoseAnalyzer\<close>\<close>

text \<open>
  The definitions follow \<^verbatim>\<open>src/backend/services/pose_analyzer.py\<close>, one HOL
  function per method, with the names of the source.

  Modelling conventions.
  \<^item> Python numbers are exact reals: rounding is not represented, and the finite range
    of IEEE doubles only in \<open>calculate_angle_float\<close>.
  \<^item> The arithmetic operations that raise in Python on a real argument (division by
    zero, \<^verbatim>\<open>math.sqrt\<close> of a negative number, \<^verbatim>\<open>math.acos\<close> outside
    \<open>[-1, 1]\<close>) return an \<open>error\<close> value, and every function that calls one of
    them returns \<open>error + 'a\<close>.
  \<^item> \<^verbatim>\<open>None\<close> is \<open>None\<close> of an option type. A guard such as
    \<^verbatim>\<open>if left_shoulder and left_hip:\<close> followed by reads of those points is a
    \<^theory_text>\<open>case\<close> on the options.
  \<^item> The truth value of an optional float is written out (\<open>truthy\<close>): \<^verbatim>\<open>None\<close>
    and \<open>0.0\<close> are both false.
\<close>

subsection \<open>Errors and the partial arithmetic of Python\<close>

datatype error = ZeroDivisionError | ValueError | OverflowError

definition bind_result :: "error + 'a \<Rightarrow> ('a \<Rightarrow> error + 'b) \<Rightarrow> error + 'b" where
  "bind_result m f = (case m of Inl e \<Rightarrow> Inl e | Inr v \<Rightarrow> f v)"

definition py_sqrt :: "real \<Rightarrow> error + real" where
  "py_sqrt v = (if v < 0 then Inl ValueError else Inr (sqrt v))"

definition py_div :: "real \<Rightarrow> real \<Rightarrow> error + real" where
  "py_div a b = (if b = 0 then Inl ZeroDivisionError else Inr (a / b))"

definition py_acos :: "real \<Rightarrow> error + real" where
  "py_acos c = (if c < - 1 \<or> 1 < c then Inl ValueError else Inr (arccos c))"

definition degrees :: "real \<Rightarrow> real" where
  "degrees r = r * (180 / pi)"

subsection \<open>Landmarks\<close>

text \<open>
  A keypoint is a dictionary; the keys the engine reads are \<^verbatim>\<open>"x"\<close>, \<^verbatim>\<open>"y"\<close>
  and \<^verbatim>\<open>"score"\<close>, each of which may be missing.
\<close>

record keypoint =
  kx :: "real option"
  ky :: "real option"
  kscore :: "real option"

text \<open>
  A point is a keypoint that \<open>get_point\<close> has accepted: both coordinates are there.
\<close>

record point =
  px :: real
  py :: real
  pscore :: "real option"

definition joint_indices :: "string \<rightharpoonup> nat" where
  "joint_indices = map_of
     [(''nose'', 0), (''left_eye'', 1), (''right_eye'', 2), (''left_ear'', 3),
      (''right_ear'', 4), (''left_shoulder'', 5), (''right_shoulder'', 6),
      (''left_elbow'', 7), (''right_elbow'', 8), (''left_wrist'', 9),
      (''right_wrist'', 10), (''left_hip'', 11), (''right_hip'', 12),
      (''left_knee'', 13), (''right_knee'', 14), (''left_ankle'', 15),
      (''right_ankle'', 16)]"

definition get_point :: "keypoint list \<Rightarrow> string \<Rightarrow> point option" where
  "get_point keypoints joint_name =
     (case joint_indices joint_name of
        None \<Rightarrow> None
      | Some index \<Rightarrow>
          if index \<ge> length keypoints then None
          else (let keypoint = keypoints ! index in
                case (kx keypoint, ky keypoint) of
                  (Some a, Some b) \<Rightarrow> Some \<lparr>px = a, py = b, pscore = kscore keypoint\<rparr>
                | _ \<Rightarrow> None))"

subsection \<open>Joint angles\<close>

definition min_confidence :: real where
  "min_confidence = 0.2"

definition low_confidence :: "point \<Rightarrow> bool" where
  "low_confidence p = (case pscore p of None \<Rightarrow> False | Some s \<Rightarrow> s < min_confidence)"

definition calculate_angle :: "point option \<Rightarrow> point option \<Rightarrow> point option \<Rightarrow> error + real option" where
  "calculate_angle point1 point2 point3 =
     (case (point1, point2, point3) of
        (Some p1, Some p2, Some p3) \<Rightarrow>
          if low_confidence p1 \<or> low_confidence p2 \<or> low_confidence p3 then Inr None
          else
            (let vector1 = (px p1 - px p2, py p1 - py p2);
                 vector2 = (px p3 - px p2, py p3 - py p2);
                 dot_product = fst vector1 * fst vector2 + snd vector1 * snd vector2
             in bind_result (py_sqrt ((fst vector1)\<^sup>2 + (snd vector1)\<^sup>2)) (\<lambda>magnitude1.
                bind_result (py_sqrt ((fst vector2)\<^sup>2 + (snd vector2)\<^sup>2)) (\<lambda>magnitude2.
                if magnitude1 * magnitude2 = 0 then Inr None
                else
                  bind_result (py_div dot_product (magnitude1 * magnitude2)) (\<lambda>cosine.
                  bind_result (py_acos (max (- 1) (min 1 cosine))) (\<lambda>angle_radians.
                  Inr (Some (degrees angle_radians)))))))
      | _ \<Rightarrow> Inr None)"

text \<open>
  On floats, \<^verbatim>\<open>x ** 2\<close> raises \<^verbatim>\<open>OverflowError\<close> when the result is outside
  the range of doubles (\<^verbatim>\<open>x * x\<close> would give \<^verbatim>\<open>inf\<close>): the exact square
  rounds to a finite double only below \<open>2 ^ 1024 - 2 ^ 970\<close>.
  \<open>calculate_angle_float\<close> is \<open>calculate_angle\<close> with the four squares of the two
  magnitudes computed this way, in the order of the source.
\<close>

definition py_float_square :: "real \<Rightarrow> error + real" where
  "py_float_square v =
     (if v\<^sup>2 \<ge> 2 ^ 1024 - 2 ^ 970 then Inl OverflowError else Inr (v\<^sup>2))"

definition calculate_angle_float :: "point option \<Rightarrow> point option \<Rightarrow> point option \<Rightarrow> error + real option" where
  "calculate_angle_float point1 point2 point3 =
     (case (point1, point2, point3) of
        (Some p1, Some p2, Some p3) \<Rightarrow>
          if low_confidence p1 \<or> low_confidence p2 \<or> low_confidence p3 then Inr None
          else
            (let vector1 = (px p1 - px p2, py p1 - py p2);
                 vector2 = (px p3 - px p2, py p3 - py p2);
                 dot_product = fst vector1 * fst vector2 + snd vector1 * snd vector2
             in bind_result (py_float_square (fst vector1)) (\<lambda>s1.
                bind_result (py_float_square (snd vector1)) (\<lambda>s2.
                bind_result (py_sqrt (s1 + s2)) (\<lambda>magnitude1.
                bind_result (py_float_square (fst vector2)) (\<lambda>s3.
                bind_result (py_float_square (snd vector2)) (\<lambda>s4.
                bind_result (py_sqrt (s3 + s4)) (\<lambda>magnitude2.
                if magnitude1 * magnitude2 = 0 then Inr None
                else
                  bind_result (py_div dot_product (magnitude1 * magnitude2)) (\<lambda>cosine.
                  bind_result (py_acos (max (- 1) (min 1 cosine))) (\<lambda>angle_radians.
                  Inr (Some (degrees angle_radians)))))))))))
      | _ \<Rightarrow> Inr None)"

text \<open>
  The angle dictionary maps a name to an optional float: a key can be missing, or
  present with the value \<^verbatim>\<open>None\<close>.
\<close>

type_synonym angle_map = "string \<rightharpoonup> real option"


subsection \<open>Dictionary reads and truth values\<close>

text \<open>\<^verbatim>\<open>angles.get(k)\<close>: \<^verbatim>\<open>None\<close> for a missing key, else the stored value.\<close>

definition dict_get :: "angle_map \<Rightarrow> string \<Rightarrow> real option" where
  "dict_get angles k = (case angles k of None \<Rightarrow> None | Some v \<Rightarrow> v)"

text \<open>\<^verbatim>\<open>angles.get(k, d)\<close>: the default only replaces a missing key, not a stored \<^verbatim>\<open>None\<close>.\<close>

definition dict_get_default :: "angle_map \<Rightarrow> string \<Rightarrow> real \<Rightarrow> real option" where
  "dict_get_default angles k d = (case angles k of None \<Rightarrow> Some d | Some v \<Rightarrow> v)"

text \<open>The truth value of an optional float: \<^verbatim>\<open>None\<close> and \<open>0\<close> are false.\<close>

definition truthy :: "real option \<Rightarrow> bool" where
  "truthy a = (case a of None \<Rightarrow> False | Some v \<Rightarrow> v \<noteq> 0)"

text \<open>
  The guard \<^verbatim>\<open>if a and b:\<close> on two optional floats, giving the two numbers
  to the guarded block.
\<close>

definition both_truthy :: "real option \<Rightarrow> real option \<Rightarrow> (real \<times> real) option" where
  "both_truthy a b =
     (case (a, b) of
        (Some u, Some v) \<Rightarrow> if truthy a \<and> truthy b then Some (u, v) else None
      | _ \<Rightarrow> None)"

subsection \<open>Exercise classifier\<close>

definition detect_exercise_type :: "keypoint list \<Rightarrow> angle_map \<Rightarrow> string option" where
  "detect_exercise_type keypoints angles =
     (let left_knee = get_point keypoints ''left_knee'';
          right_knee = get_point keypoints ''right_knee''
      in case (get_point keypoints ''left_shoulder'', get_point keypoints ''right_shoulder'',
               get_point keypoints ''left_hip'', get_point keypoints ''right_hip'') of
           (Some left_shoulder, Some right_shoulder, Some left_hip, Some right_hip) \<Rightarrow>
             (let shoulder_y = (py left_shoulder + py right_shoulder) / 2;
                  hip_y = (py left_hip + py right_hip) / 2;
                  torso_vertical_dist = \<bar>shoulder_y - hip_y\<bar>;
                  shoulder_x = (px left_shoulder + px right_shoulder) / 2;
                  hip_x = (px left_hip + px right_hip) / 2;
                  torso_horizontal_dist = \<bar>shoulder_x - hip_x\<bar>;
                  horizontal =
                    (if torso_vertical_dist < 30 then
                       (case both_truthy (dict_get angles ''left_elbow'') (dict_get angles ''right_elbow'') of
                          Some (left_elbow, right_elbow) \<Rightarrow>
                            (let avg_elbow_angle = (left_elbow + right_elbow) / 2
                             in if avg_elbow_angle < 120 then Some ''push_up'' else Some ''plank'')
                        | None \<Rightarrow> None)
                     else None)
              in case horizontal of
                   Some t \<Rightarrow> Some t
                 | None \<Rightarrow>
                    (let squat =
                       (if left_knee \<noteq> None \<and> right_knee \<noteq> None then
                          (case both_truthy (dict_get angles ''left_knee'') (dict_get angles ''right_knee'') of
                             Some (left_knee_angle, right_knee_angle) \<Rightarrow>
                               (let avg_knee_angle = (left_knee_angle + right_knee_angle) / 2
                                in if avg_knee_angle < 160 then Some ''squat'' else None)
                           | None \<Rightarrow> None)
                        else None)
                     in case squat of
                          Some t \<Rightarrow> Some t
                        | None \<Rightarrow>
                           (let shoulder_width = \<bar>px left_shoulder - px right_shoulder\<bar>;
                                hip_width = \<bar>px left_hip - px right_hip\<bar>
                            in if shoulder_width > hip_width * 1.5 then Some ''jumping_jack''
                               else None)))
         | _ \<Rightarrow> None)"

subsection \<open>Stage detector\<close>

definition detect_exercise_stage :: "string \<Rightarrow> angle_map \<Rightarrow> string" where
  "detect_exercise_stage exercise_type angles =
     (if exercise_type = ''push_up'' then
        (let left_elbow = dict_get_default angles ''left_elbow'' 180;
             right_elbow = dict_get_default angles ''right_elbow'' 180;
             avg_elbow_angle = (case both_truthy left_elbow right_elbow of
                                  Some (l, r) \<Rightarrow> (l + r) / 2
                                | None \<Rightarrow> 180)
         in if avg_elbow_angle < 100 then ''down''
            else if avg_elbow_angle > 160 then ''up''
            else ''neutral'')
      else if exercise_type = ''squat'' then
        (let left_knee = dict_get_default angles ''left_knee'' 180;
             right_knee = dict_get_default angles ''right_knee'' 180;
             avg_knee_angle = (case both_truthy left_knee right_knee of
                                 Some (l, r) \<Rightarrow> (l + r) / 2
                               | None \<Rightarrow> 180)
         in if avg_knee_angle < 120 then ''down''
            else if avg_knee_angle > 160 then ''up''
            else ''neutral'')
      else if exercise_type = ''jumping_jack'' then
        (let left_shoulder = dict_get_default angles ''left_shoulder'' 0;
             right_shoulder = dict_get_default angles ''right_shoulder'' 0
         in case both_truthy left_shoulder right_shoulder of
              Some (l, r) \<Rightarrow>
                (let avg_shoulder_angle = (l + r) / 2
                 in if avg_shoulder_angle > 80 then ''up''
                    else if avg_shoulder_angle < 30 then ''down''
                    else ''neutral'')
            | None \<Rightarrow> ''neutral'')
      else ''neutral'')"

subsection \<open>Form scoring\<close>






paragraph \<open>Push-up\<close>





paragraph \<open>Squat\<close>







paragraph \<open>Plank\<close>





paragraph \<open>Jumping jack\<close>





subsection \<open>Analysis facade\<close>

text \<open>
  The response dictionary. The key \<^verbatim>\<open>"stage"\<close> is only set when an analyzer has
  run: \<open>stage = None\<close> is the dictionary without that key.
\<close>

record response =
  exercise_detected :: bool
  exercise_type :: string
  form_score :: real
  feedback :: "string list"
  joint_angles :: angle_map
  stage :: "string option"



section \<open>Definitions used to state the properties\<close>

subsection \<open>The angle of a triple, in the words of the specification\<close>

definition magnitude :: "real \<times> real \<Rightarrow> real" where
  "magnitude v = sqrt ((fst v)\<^sup>2 + (snd v)\<^sup>2)"

text \<open>
  Vertex \<open>V\<close> with neighbours \<open>A\<close> and \<open>C\<close>: absent when a landmark is missing, when
  a confidence is present and below 0.2, or when \<open>A - V\<close> or \<open>C - V\<close> has zero
  magnitude; otherwise the clamped arccosine of the normalised dot product, in degrees.
\<close>

definition angle_spec :: "point option \<Rightarrow> point option \<Rightarrow> point option \<Rightarrow> real option" where
  "angle_spec A V C =
     (case (A, V, C) of
        (Some a, Some v, Some c) \<Rightarrow>
          (let u = (px a - px v, py a - py v);
               w = (px c - px v, py c - py v)
           in if (case pscore a of Some s \<Rightarrow> s < 0.2 | None \<Rightarrow> False)
                 \<or> (case pscore v of Some s \<Rightarrow> s < 0.2 | None \<Rightarrow> False)
                 \<or> (case pscore c of Some s \<Rightarrow> s < 0.2 | None \<Rightarrow> False)
                 \<or> magnitude u = 0 \<or> magnitude w = 0
              then None
              else Some (degrees (arccos (max (- 1) (min 1
                     ((fst u * fst w + snd u * snd w) / (magnitude u * magnitude w)))))))
      | _ \<Rightarrow> None)"



subsection \<open>Uniform translation of a frame\<close>



subsection \<open>Stage detection, in the words of the specification\<close>

text \<open>A missing angle counts as 180 degrees.\<close>

definition angle_or_180 :: "angle_map \<Rightarrow> string \<Rightarrow> real" where
  "angle_or_180 angles k = (case dict_get angles k of None \<Rightarrow> 180 | Some v \<Rightarrow> v)"

definition stage_spec :: "string \<Rightarrow> angle_map \<Rightarrow> string" where
  "stage_spec t angles =
     (if t = ''push_up'' then
        (let avg = (angle_or_180 angles ''left_elbow'' + angle_or_180 angles ''right_elbow'') / 2
         in if avg < 100 then ''down'' else if avg > 160 then ''up'' else ''neutral'')
      else if t = ''squat'' then
        (let avg = (angle_or_180 angles ''left_knee'' + angle_or_180 angles ''right_knee'') / 2
         in if avg < 120 then ''down'' else if avg > 160 then ''up'' else ''neutral'')
      else if t = ''jumping_jack'' then
        (let avg = (angle_or_180 angles ''left_shoulder'' + angle_or_180 angles ''right_shoulder'') / 2
         in if avg > 80 then ''up'' else if avg < 30 then ''down'' else ''neutral'')
      else ''neutral'')"

text \<open>
  An angle is \<open>usable\<close> when its key is missing from the map or it is stored with a
  non-zero value; it is \<open>present_nonzero\<close> when it is stored with a non-zero value.
\<close>

definition usable :: "angle_map \<Rightarrow> string \<Rightarrow> bool" where
  "usable angles k =
     (case angles k of None \<Rightarrow> True | Some None \<Rightarrow> False | Some (Some v) \<Rightarrow> v \<noteq> 0)"

definition present_nonzero :: "angle_map \<Rightarrow> string \<Rightarrow> bool" where
  "present_nonzero angles k = truthy (dict_get angles k)"

subsection \<open>The classifier, in the words of the specification\<close>






subsection \<open>Scores and feedback, in the words of the specification\<close>










subsection \<open>The responses of the facade\<close>






section \<open>Properties\<close>

subsection \<open>Basic facts\<close>

lemma bind_result_Inr [simp]: "bind_result (Inr v) f = f v"
  by (simp add: bind_result_def)

lemma bind_result_Inl [simp]: "bind_result (Inl e) f = Inl e"
  by (simp add: bind_result_def)

lemma py_sqrt_sum_squares [simp]: "py_sqrt (a\<^sup>2 + b\<^sup>2) = Inr (sqrt (a\<^sup>2 + b\<^sup>2))"
  by (simp add: py_sqrt_def not_less)

lemma py_acos_clamp [simp]: "py_acos (max (- 1) (min 1 c)) = Inr (arccos (max (- 1) (min 1 c)))"
  by (simp add: py_acos_def)


subsection \<open>The angle of a triple\<close>








subsection \<open>Translation invariance\<close>





subsection \<open>Stage detection\<close>

lemma stage_push_up_usable:
  "usable angles ''left_elbow'' \<Longrightarrow> usable angles ''right_elbow'' \<Longrightarrow>
   detect_exercise_stage ''push_up'' angles = stage_spec ''push_up'' angles"
  by (auto simp: detect_exercise_stage_def stage_spec_def usable_def angle_or_180_def
      dict_get_def dict_get_default_def both_truthy_def truthy_def Let_def split: option.splits)

lemma stage_push_up_unusable:
  "\<not> (usable angles ''left_elbow'' \<and> usable angles ''right_elbow'') \<Longrightarrow>
   detect_exercise_stage ''push_up'' angles = ''up''"
  by (auto simp: detect_exercise_stage_def usable_def
      dict_get_default_def both_truthy_def truthy_def Let_def split: option.splits)

lemma stage_squat_usable:
  "usable angles ''left_knee'' \<Longrightarrow> usable angles ''right_knee'' \<Longrightarrow>
   detect_exercise_stage ''squat'' angles = stage_spec ''squat'' angles"
  by (auto simp: detect_exercise_stage_def stage_spec_def usable_def angle_or_180_def
      dict_get_def dict_get_default_def both_truthy_def truthy_def Let_def split: option.splits)

lemma stage_squat_unusable:
  "\<not> (usable angles ''left_knee'' \<and> usable angles ''right_knee'') \<Longrightarrow>
   detect_exercise_stage ''squat'' angles = ''up''"
  by (auto simp: detect_exercise_stage_def usable_def
      dict_get_default_def both_truthy_def truthy_def Let_def split: option.splits)

lemma stage_jumping_jack_present:
  "present_nonzero angles ''left_shoulder'' \<Longrightarrow> present_nonzero angles ''right_shoulder'' \<Longrightarrow>
   detect_exercise_stage ''jumping_jack'' angles = stage_spec ''jumping_jack'' angles"
  by (auto simp: detect_exercise_stage_def stage_spec_def present_nonzero_def angle_or_180_def
      dict_get_def dict_get_default_def both_truthy_def truthy_def Let_def split: option.splits)

lemma stage_jumping_jack_absent:
  "\<not> (present_nonzero angles ''left_shoulder'' \<and> present_nonzero angles ''right_shoulder'') \<Longrightarrow>
   detect_exercise_stage ''jumping_jack'' angles = ''neutral''"
  by (auto simp: detect_exercise_stage_def present_nonzero_def
      dict_get_def dict_get_default_def both_truthy_def truthy_def Let_def split: option.splits)

lemma stage_other:
  "t \<noteq> ''push_up'' \<Longrightarrow> t \<noteq> ''squat'' \<Longrightarrow> t \<noteq> ''jumping_jack'' \<Longrightarrow>
   detect_exercise_stage t angles = ''neutral''"
  by (simp add: detect_exercise_stage_def)

text \<open>
  C2, as stated, fails: with both shoulder angles missing the specification's rule
  (a missing angle counts as 180, so the average is above 80) gives \<open>up\<close>, and the
  code gives \<open>neutral\<close>.
\<close>

theorem stage_missing_shoulders_counterexample:
  "detect_exercise_stage ''jumping_jack'' Map.empty = ''neutral''
   \<and> stage_spec ''jumping_jack'' Map.empty = ''up''"
  by (simp add: detect_exercise_stage_def stage_spec_def angle_or_180_def
      dict_get_def dict_get_default_def both_truthy_def truthy_def)

text \<open>
  C2, amended. For \<open>push_up\<close> (elbows) and \<open>squat\<close> (knees) the stage is the one of
  the specification, with an angle whose key is missing from the map counted as 180,
  provided neither angle is stored as absent or is exactly 0; when one of them is,
  the average itself is taken to be 180 and the stage is \<open>up\<close>. For \<open>jumping_jack\<close>
  the stage is the one of the specification when both shoulder angles are stored and
  non-zero, and \<open>neutral\<close> otherwise. For \<open>plank\<close>, and every other type, it is
  \<open>neutral\<close>.
\<close>

theorem detect_exercise_stage_cases:
  "(usable angles ''left_elbow'' \<and> usable angles ''right_elbow'' \<longrightarrow>
      detect_exercise_stage ''push_up'' angles = stage_spec ''push_up'' angles)
   \<and> (\<not> (usable angles ''left_elbow'' \<and> usable angles ''right_elbow'') \<longrightarrow>
      detect_exercise_stage ''push_up'' angles = ''up'')
   \<and> (usable angles ''left_knee'' \<and> usable angles ''right_knee'' \<longrightarrow>
      detect_exercise_stage ''squat'' angles = stage_spec ''squat'' angles)
   \<and> (\<not> (usable angles ''left_knee'' \<and> usable angles ''right_knee'') \<longrightarrow>
      detect_exercise_stage ''squat'' angles = ''up'')
   \<and> (present_nonzero angles ''left_shoulder'' \<and> present_nonzero angles ''right_shoulder'' \<longrightarrow>
      detect_exercise_stage ''jumping_jack'' angles = stage_spec ''jumping_jack'' angles)
   \<and> (\<not> (present_nonzero angles ''left_shoulder'' \<and> present_nonzero angles ''right_shoulder'') \<longrightarrow>
      detect_exercise_stage ''jumping_jack'' angles = ''neutral'')
   \<and> detect_exercise_stage ''plank'' angles = ''neutral''
   \<and> (t \<noteq> ''push_up'' \<and> t \<noteq> ''squat'' \<and> t \<noteq> ''jumping_jack'' \<longrightarrow>
      detect_exercise_stage t angles = ''neutral'')"
  using stage_push_up_usable stage_push_up_unusable stage_squat_usable stage_squat_unusable
    stage_jumping_jack_present stage_jumping_jack_absent stage_other [of t angles]
    stage_other [of "''plank''" angles]
  by simp

theorem detect_exercise_stage_cases_witness:
  "detect_exercise_stage ''push_up'' [''left_elbow'' \<mapsto> Some 90, ''right_elbow'' \<mapsto> Some 90] = ''down''
   \<and> detect_exercise_stage ''push_up'' [''left_elbow'' \<mapsto> None, ''right_elbow'' \<mapsto> Some 90] = ''up''
   \<and> detect_exercise_stage ''squat'' [''left_knee'' \<mapsto> Some 100] = ''neutral''
   \<and> detect_exercise_stage ''squat'' [''left_knee'' \<mapsto> Some 0, ''right_knee'' \<mapsto> Some 100] = ''up''
   \<and> detect_exercise_stage ''jumping_jack'' [''left_shoulder'' \<mapsto> Some 90, ''right_shoulder'' \<mapsto> Some 90] = ''up''
   \<and> detect_exercise_stage ''jumping_jack'' [''left_shoulder'' \<mapsto> Some 90] = ''neutral''
   \<and> detect_exercise_stage ''lunge'' Map.empty = ''neutral''"
proof -
  let ?a1 = "[''left_elbow'' \<mapsto> Some 90, ''right_elbow'' \<mapsto> Some (90::real)]"
  let ?a2 = "[''left_elbow'' \<mapsto> None, ''right_elbow'' \<mapsto> Some (90::real)]"
  let ?a3 = "[''left_knee'' \<mapsto> Some (100::real)]"
  let ?a4 = "[''left_knee'' \<mapsto> Some 0, ''right_knee'' \<mapsto> Some (100::real)]"
  let ?a5 = "[''left_shoulder'' \<mapsto> Some 90, ''right_shoulder'' \<mapsto> Some (90::real)]"
  let ?a6 = "[''left_shoulder'' \<mapsto> Some (90::real)]"
  have 1: "detect_exercise_stage ''push_up'' ?a1 = ''down''"
    using detect_exercise_stage_cases [of ?a1]
    by (simp add: usable_def stage_spec_def angle_or_180_def dict_get_def)
  have 2: "detect_exercise_stage ''push_up'' ?a2 = ''up''"
    using detect_exercise_stage_cases [of ?a2] by (simp add: usable_def)
  have 3: "detect_exercise_stage ''squat'' ?a3 = ''neutral''"
    using detect_exercise_stage_cases [of ?a3]
    by (simp add: usable_def stage_spec_def angle_or_180_def dict_get_def)
  have 4: "detect_exercise_stage ''squat'' ?a4 = ''up''"
    using detect_exercise_stage_cases [of ?a4] by (simp add: usable_def)
  have 5: "detect_exercise_stage ''jumping_jack'' ?a5 = ''up''"
    using detect_exercise_stage_cases [of ?a5]
    by (simp add: present_nonzero_def truthy_def stage_spec_def angle_or_180_def dict_get_def)
  have 6: "detect_exercise_stage ''jumping_jack'' ?a6 = ''neutral''"
    using detect_exercise_stage_cases [of ?a6]
    by (simp add: present_nonzero_def truthy_def dict_get_def)
  have 7: "detect_exercise_stage ''lunge'' Map.empty = ''neutral''"
    using detect_exercise_stage_cases [of Map.empty "''lunge''"] by simp
  from 1 2 3 4 5 6 7 show ?thesis by simp
qed

subsection \<open>A zero angle counts as absent\<close>

lemma both_truthy_zero_None:
  "both_truthy (dict_get (m(k \<mapsto> Some 0)) a) (dict_get (m(k \<mapsto> Some 0)) b)
   = both_truthy (dict_get (m(k \<mapsto> None)) a) (dict_get (m(k \<mapsto> None)) b)"
  by (simp add: dict_get_def both_truthy_def truthy_def split: option.splits)

lemma both_truthy_zero_missing:
  "both_truthy (dict_get (m(k \<mapsto> Some 0)) a) (dict_get (m(k \<mapsto> Some 0)) b)
   = both_truthy (dict_get (m(k := None)) a) (dict_get (m(k := None)) b)"
  by (simp add: dict_get_def both_truthy_def truthy_def split: option.splits)

lemma classifier_zero_None:
  "detect_exercise_type kps (angles(k \<mapsto> Some 0)) = detect_exercise_type kps (angles(k \<mapsto> None))"
  by (simp only: detect_exercise_type_def both_truthy_zero_None)

lemma classifier_zero_missing:
  "detect_exercise_type kps (angles(k \<mapsto> Some 0)) = detect_exercise_type kps (angles(k := None))"
  by (simp only: detect_exercise_type_def both_truthy_zero_missing)

lemma both_truthy_case:
  "(case both_truthy a b of None \<Rightarrow> g | Some (u, v) \<Rightarrow> f u v)
   = (if truthy a \<and> truthy b then f (the a) (the b) else g)"
  by (auto simp: both_truthy_def truthy_def split: option.splits)

lemma rule1_needs_elbows:
  "detect_exercise_type kps angles = Some t \<Longrightarrow> t = ''push_up'' \<or> t = ''plank'' \<Longrightarrow>
   truthy (dict_get angles ''left_elbow'') \<and> truthy (dict_get angles ''right_elbow'')"
  by (cases "get_point kps ''left_shoulder''"; cases "get_point kps ''right_shoulder''";
      cases "get_point kps ''left_hip''"; cases "get_point kps ''right_hip''")
     (auto simp: detect_exercise_type_def Let_def both_truthy_case split: if_splits)

lemma rule2_needs_knees:
  "detect_exercise_type kps angles = Some ''squat'' \<Longrightarrow>
   truthy (dict_get angles ''left_knee'') \<and> truthy (dict_get angles ''right_knee'')"
  by (cases "get_point kps ''left_shoulder''"; cases "get_point kps ''right_shoulder''";
      cases "get_point kps ''left_hip''"; cases "get_point kps ''right_hip''")
     (auto simp: detect_exercise_type_def Let_def both_truthy_case split: if_splits)

lemma zero_elbow_no_rule1:
  "detect_exercise_type kps (angles(''left_elbow'' \<mapsto> Some 0)) \<noteq> Some ''push_up''"
  "detect_exercise_type kps (angles(''left_elbow'' \<mapsto> Some 0)) \<noteq> Some ''plank''"
  "detect_exercise_type kps (angles(''right_elbow'' \<mapsto> Some 0)) \<noteq> Some ''push_up''"
  "detect_exercise_type kps (angles(''right_elbow'' \<mapsto> Some 0)) \<noteq> Some ''plank''"
  using rule1_needs_elbows [of kps "angles(''left_elbow'' \<mapsto> Some 0)"]
    rule1_needs_elbows [of kps "angles(''right_elbow'' \<mapsto> Some 0)"]
  by (auto simp: dict_get_def truthy_def)

lemma zero_knee_no_rule2:
  "detect_exercise_type kps (angles(''left_knee'' \<mapsto> Some 0)) \<noteq> Some ''squat''"
  "detect_exercise_type kps (angles(''right_knee'' \<mapsto> Some 0)) \<noteq> Some ''squat''"
  using rule2_needs_knees [of kps "angles(''left_knee'' \<mapsto> Some 0)"]
    rule2_needs_knees [of kps "angles(''right_knee'' \<mapsto> Some 0)"]
  by (auto simp: dict_get_def truthy_def)

lemma stage_zero_shoulder:
  "detect_exercise_stage ''jumping_jack'' (angles(''left_shoulder'' \<mapsto> Some 0)) = ''neutral''"
  "detect_exercise_stage ''jumping_jack'' (angles(''right_shoulder'' \<mapsto> Some 0)) = ''neutral''"
  "detect_exercise_stage ''jumping_jack'' (angles(''left_shoulder'' := None)) = ''neutral''"
  "detect_exercise_stage ''jumping_jack'' (angles(''right_shoulder'' := None)) = ''neutral''"
  by (rule stage_jumping_jack_absent, simp add: present_nonzero_def dict_get_def truthy_def)+

text \<open>
  C9. Presence of an angle is tested by its truth value, so an angle of exactly 0
  behaves as an absent one. In the classifier, storing 0 under an angle name gives the
  same result as storing \<^verbatim>\<open>None\<close> there or as removing the key; with an elbow angle
  of 0 rule 1 never answers (neither \<open>push_up\<close> nor \<open>plank\<close>), and with a knee angle
  of 0 rule 2 never answers \<open>squat\<close>. In the stage detection of \<open>jumping_jack\<close> a
  shoulder angle of 0, or a missing one (whose default is 0), gives \<open>neutral\<close>.
\<close>

theorem zero_angle_counts_as_absent:
  "detect_exercise_type kps (angles(k \<mapsto> Some 0)) = detect_exercise_type kps (angles(k \<mapsto> None))
   \<and> detect_exercise_type kps (angles(k \<mapsto> Some 0)) = detect_exercise_type kps (angles(k := None))
   \<and> detect_exercise_type kps (angles(''left_elbow'' \<mapsto> Some 0)) \<noteq> Some ''push_up''
   \<and> detect_exercise_type kps (angles(''left_elbow'' \<mapsto> Some 0)) \<noteq> Some ''plank''
   \<and> detect_exercise_type kps (angles(''right_elbow'' \<mapsto> Some 0)) \<noteq> Some ''push_up''
   \<and> detect_exercise_type kps (angles(''right_elbow'' \<mapsto> Some 0)) \<noteq> Some ''plank''
   \<and> detect_exercise_type kps (angles(''left_knee'' \<mapsto> Some 0)) \<noteq> Some ''squat''
   \<and> detect_exercise_type kps (angles(''right_knee'' \<mapsto> Some 0)) \<noteq> Some ''squat''
   \<and> detect_exercise_stage ''jumping_jack'' (angles(''left_shoulder'' \<mapsto> Some 0)) = ''neutral''
   \<and> detect_exercise_stage ''jumping_jack'' (angles(''right_shoulder'' \<mapsto> Some 0)) = ''neutral''
   \<and> detect_exercise_stage ''jumping_jack'' (angles(''left_shoulder'' := None)) = ''neutral''
   \<and> detect_exercise_stage ''jumping_jack'' (angles(''right_shoulder'' := None)) = ''neutral''"
  using classifier_zero_None [of kps angles k] classifier_zero_missing [of kps angles k]
    zero_elbow_no_rule1 [of kps angles] zero_knee_no_rule2 [of kps angles]
    stage_zero_shoulder [of angles]
  by simp

subsection \<open>The classifier\<close>







lemma angle_spec_vertex_None [simp]: "angle_spec A None C = None"
  by (simp add: angle_spec_def split: option.splits)


lemma both_truthy_Some:
  "both_truthy a b = Some (u, v) \<longleftrightarrow> a = Some u \<and> b = Some v \<and> u \<noteq> 0 \<and> v \<noteq> 0"
  by (auto simp: both_truthy_def truthy_def split: option.splits)

lemma both_truthy_None:
  "both_truthy a b = None \<longleftrightarrow> \<not> (truthy a \<and> truthy b)"
  by (auto simp: both_truthy_def truthy_def split: option.splits)









subsection \<open>Scoring\<close>






























subsection \<open>The facade\<close>










subsection \<open>Claims about the facade\<close>













subsection \<open>The squat scenario\<close>












subsection \<open>The range of doubles\<close>

lemma py_sqrt_zero [simp]: "py_sqrt 0 = Inr 0"
  by (simp add: py_sqrt_def)

lemma py_float_square_cases:
  "py_float_square v = Inl OverflowError \<or> py_float_square v = Inr (v\<^sup>2)"
  by (simp add: py_float_square_def)

lemma calculate_angle_float_cases:
  "calculate_angle_float A V C = Inl OverflowError
   \<or> calculate_angle_float A V C = calculate_angle A V C"
proof (cases "\<exists>p1 p2 p3. A = Some p1 \<and> V = Some p2 \<and> C = Some p3")
  case False
  then show ?thesis
    by (cases A; cases V; cases C) (simp_all add: calculate_angle_float_def calculate_angle_def)
next
  case True
  then obtain p1 p2 p3 where p: "A = Some p1" "V = Some p2" "C = Some p3" by blast
  show ?thesis
    by (simp add: p calculate_angle_float_def calculate_angle_def Let_def py_float_square_def)
qed

lemma calculate_angle_float_refines:
  "calculate_angle_float A V C = Inr r \<Longrightarrow> calculate_angle A V C = Inr r"
  using calculate_angle_float_cases [of A V C] by auto

text \<open>
  C6. In exact arithmetic no operation of the analysis fails (\<open>analyze_exercise_total\<close>),
  and \<open>calculate_angle_float\<close> either agrees with \<open>calculate_angle\<close> or raises
  \<^verbatim>\<open>OverflowError\<close>. It does raise: with the left shoulder at \<open>x = 10 ^ 200\<close> and
  the elbow and wrist at the origin, the first square overflows and the call is
  aborted, where the zero-length second vector should have given an absent angle.
\<close>

theorem calculate_angle_float_overflow:
  "calculate_angle_float (Some \<lparr>px = 10 ^ 200, py = 0, pscore = None\<rparr>)
     (Some \<lparr>px = 0, py = 0, pscore = None\<rparr>) (Some \<lparr>px = 0, py = 0, pscore = None\<rparr>)
   = Inl OverflowError
   \<and> calculate_angle (Some \<lparr>px = 10 ^ 200, py = 0, pscore = None\<rparr>)
     (Some \<lparr>px = 0, py = 0, pscore = None\<rparr>) (Some \<lparr>px = 0, py = 0, pscore = None\<rparr>)
   = Inr None"
  by (simp add: calculate_angle_float_def calculate_angle_def low_confidence_def
      py_float_square_def)


end
